theory Spec2Isabelle
  imports Main "HOL-Library.Word"
begin

section \<open>The patch ledger of \<^verbatim>\<open>patches.cpp\<close>\<close>

text \<open>
  The source file keeps one global \<^verbatim>\<open>std::map<uint, PATCHINFO> patches\<close> and
  six functions on it, plus \<^verbatim>\<open>patchfile\<close>, which bakes a list of patches into a
  copy of the module's file.  Every function is embedded as a HOL function that takes
  the ledger and returns the new ledger, together with the return value and the calls
  it makes to the outside (memory writes, file operations) as a list of events.

  \<^verbatim>\<open>uint\<close> is the pointer-sized unsigned integer of the build (32 or 64 bit), so
  the model is polymorphic in the word length \<open>'w\<close>: arithmetic on addresses wraps
  and comparisons are unsigned, as in the source.  The records below take the type
  of addresses as their parameter \<open>'a\<close>; every function uses them at \<open>'w word\<close>.
\<close>

subsection \<open>Data\<close>

type_synonym byte = "8 word"

text \<open>
  \<^verbatim>\<open>PATCHINFO\<close>: the field \<^verbatim>\<open>mod\<close> is called \<open>mod_name\<close> here (\<open>mod\<close> is
  the remainder operator of HOL).  A \<^verbatim>\<open>char[]\<close> buffer is modelled by the string
  in front of its terminating zero.
\<close>

record 'a PATCHINFO =
  mod_name :: string
  addr :: 'a
  oldbyte :: byte
  newbyte :: byte

text \<open>
  The collaborators that are declared in other files of the debugger
  (\<^verbatim>\<open>debugger.h\<close>, \<^verbatim>\<open>memory.h\<close>, \<^verbatim>\<open>addrinfo.h\<close>, TitanEngine, Win32) are
  parameters of the model.  \<open>modnamefromaddr\<close> gives the contents of the name
  buffer after the call \<^verbatim>\<open>modnamefromaddr(addr, newPatch.mod, true)\<close>.
  \<open>ConvertVAtoFileOffsetEx env FileMapVA LoadedSize modbase va\<close> is the pointer into
  the mapped file (0 when the address has no raw offset).  The two \<^verbatim>\<open>sizeof\<close>
  values are those of the structure declarations, which are not part of the file.
\<close>

record 'a env =
  DbgIsDebugging :: bool
  memisvalidreadptr :: "'a \<Rightarrow> bool"
  modbasefromaddr :: "'a \<Rightarrow> 'a"
  modnamefromaddr :: "'a \<Rightarrow> string"
  modhashfromva :: "'a \<Rightarrow> 'a"
  modbasefromname :: "string \<Rightarrow> 'a"
  sizeof_LOOPSINFO :: nat
  sizeof_PATCHINFO :: nat
  GetModuleFileNameExA :: "'a \<Rightarrow> string option"
  CopyFileA :: "string \<Rightarrow> string \<Rightarrow> bool"
  StaticFileLoad :: "string \<Rightarrow> (32 word \<times> 'a) option"
  ConvertVAtoFileOffsetEx :: "'a \<Rightarrow> 32 word \<Rightarrow> 'a \<Rightarrow> 'a \<Rightarrow> 'a"
  StaticFileUnload :: "string \<Rightarrow> bool"

text \<open>
  What a function does to the outside world, in the order of the calls:
  \<open>MemWrite a b\<close> is \<^verbatim>\<open>memwrite(hProcess, a, &b, 1, 0)\<close>, \<open>FileWrite p b\<close> is the
  store \<^verbatim>\<open>*ptr = b\<close> into the mapped file copy, \<open>Dprintf i m off old new\<close> is the
  console line of \<^verbatim>\<open>patchfile\<close> (the byte read from the file for that line is
  not tracked).
\<close>

datatype 'a event =
    MemWrite 'a byte
  | CopyFile string string
  | FileLoad string
  | Dprintf int string 'a byte byte
  | FileWrite 'a byte
  | FileUnload string

text \<open>A store through a null pointer or past the end of a buffer does not return.\<close>

datatype fault = NullPointerWrite | BufferOverrun

subsection \<open>The map \<^verbatim>\<open>PatchesInfo\<close>\<close>

text \<open>
  A \<^verbatim>\<open>std::map\<close> is iterated in ascending key order and holds one value for each
  key: it is modelled by the list of its entries in iteration order.
\<close>

type_synonym 'w PatchesInfo = "('w word \<times> 'w word PATCHINFO) list"

definition patches_find :: "'w word \<Rightarrow> 'w PatchesInfo \<Rightarrow> 'w word PATCHINFO option" where
  "patches_find key patches = map_of patches key"

text \<open>\<^verbatim>\<open>insert\<close> puts the entry at its place in the order, and changes nothing when the key is present.\<close>

fun patches_insert :: "'w::len word \<Rightarrow> 'w word PATCHINFO \<Rightarrow> 'w PatchesInfo \<Rightarrow> 'w PatchesInfo" where
  "patches_insert key v [] = [(key, v)]"
| "patches_insert key v (e # es) =
     (if key < fst e then (key, v) # e # es
      else if key = fst e then e # es
      else e # patches_insert key v es)"

text \<open>
  \<^verbatim>\<open>erase(found)\<close> removes the entry of the key that was found (there is one
  such entry, the keys of a map being unique).
\<close>

definition patches_erase :: "'w word \<Rightarrow> 'w PatchesInfo \<Rightarrow> 'w PatchesInfo" where
  "patches_erase key patches = filter (\<lambda>e. fst e \<noteq> key) patches"

text \<open>\<^verbatim>\<open>found->second = v\<close> overwrites the value of the entry that was found.\<close>

definition patches_assign :: "'w word \<Rightarrow> 'w word PATCHINFO \<Rightarrow> 'w PatchesInfo \<Rightarrow> 'w PatchesInfo" where
  "patches_assign key v patches = map (\<lambda>e. if fst e = key then (key, v) else e) patches"

text \<open>The keys of a map are strictly ascending in iteration order.\<close>

definition patches_ok :: "'w::len PatchesInfo \<Rightarrow> bool" where
  "patches_ok patches = sorted_wrt (<) (map fst patches)"

subsection \<open>\<^verbatim>\<open>_stricmp\<close>\<close>

text \<open>
  The C runtime's case-insensitive comparison, in the C locale: both strings are
  compared after folding \<^verbatim>\<open>A\<close>..\<^verbatim>\<open>Z\<close> to lower case; the result is negative, zero or
  positive.
\<close>

definition tolower :: "char \<Rightarrow> char" where
  "tolower c = (let n = of_char c :: nat in if 65 \<le> n \<and> n \<le> 90 then char_of (n + 32) else c)"

fun stricmp :: "string \<Rightarrow> string \<Rightarrow> int" where
  "stricmp [] [] = 0"
| "stricmp [] (b # bs) = - 1"
| "stricmp (a # as) [] = 1"
| "stricmp (a # as) (b # bs) =
     (if tolower a = tolower b then stricmp as bs
      else if (of_char (tolower a) :: nat) < of_char (tolower b) then - 1 else 1)"

subsection \<open>\<^verbatim>\<open>patchset\<close>, \<^verbatim>\<open>patchget\<close>, \<^verbatim>\<open>patchdel\<close>\<close>

definition patchset ::
  "('w::len) word env \<Rightarrow> 'w PatchesInfo \<Rightarrow> 'w word \<Rightarrow> byte \<Rightarrow> byte \<Rightarrow> bool \<times> 'w PatchesInfo" where
  "patchset env patches a ob nb =
     (if \<not> DbgIsDebugging env \<or> \<not> memisvalidreadptr env a then (False, patches)
      else if ob = nb then (True, patches)
      else
        let newPatch = \<lparr>mod_name = modnamefromaddr env a, addr = a - modbasefromaddr env a,
                        oldbyte = ob, newbyte = nb\<rparr>;
            key = modhashfromva env a
        in case patches_find key patches of
             Some found \<Rightarrow>
               if oldbyte found = nb then (True, patches_erase key patches)
               else (True, patches_assign key (newPatch\<lparr>oldbyte := oldbyte found\<rparr>) patches)
           | None \<Rightarrow> (True, patches_insert key newPatch patches))"

text \<open>
  The out-parameter \<^verbatim>\<open>PATCHINFO* patch\<close> is \<open>None\<close> for a null pointer and
  \<open>Some p\<close> for a pointer to \<open>p\<close>; the second component of the result is what it
  points to after the call.
\<close>

definition patchget ::
  "('w::len) word env \<Rightarrow> 'w PatchesInfo \<Rightarrow> 'w word \<Rightarrow> 'w word PATCHINFO option \<Rightarrow> bool \<times> 'w word PATCHINFO option" where
  "patchget env patches a patch =
     (if \<not> DbgIsDebugging env then (False, patch)
      else case patches_find (modhashfromva env a) patches of
             None \<Rightarrow> (False, patch)
           | Some found \<Rightarrow>
               (case patch of
                  Some _ \<Rightarrow> (True, Some (found\<lparr>addr := addr found + modbasefromaddr env a\<rparr>))
                | None \<Rightarrow> (oldbyte found \<noteq> newbyte found, None)))"

definition patchdel ::
  "('w::len) word env \<Rightarrow> 'w PatchesInfo \<Rightarrow> 'w word \<Rightarrow> bool \<Rightarrow> bool \<times> 'w PatchesInfo \<times> 'w word event list" where
  "patchdel env patches a restore =
     (if \<not> DbgIsDebugging env then (False, patches, [])
      else let key = modhashfromva env a in
        case patches_find key patches of
          None \<Rightarrow> (False, patches, [])
        | Some found \<Rightarrow>
            (True, patches_erase key patches,
             if restore then [MemWrite (addr found + modbasefromaddr env a) (oldbyte found)] else []))"

subsection \<open>\<^verbatim>\<open>patchdelrange\<close> and \<^verbatim>\<open>patchclear\<close>\<close>

text \<open>
  The \<^verbatim>\<open>while\<close> loop of \<^verbatim>\<open>patchdelrange\<close> walks the map once; an entry is either
  erased (after the optional \<^verbatim>\<open>memwrite\<close>) or kept.  The result is the entries that
  are kept and the writes, in iteration order.
\<close>

fun patchdelrange_loop ::
  "bool \<Rightarrow> 'w::len word \<Rightarrow> 'w word \<Rightarrow> 'w word \<Rightarrow> bool \<Rightarrow> 'w PatchesInfo
   \<Rightarrow> 'w PatchesInfo \<times> 'w word event list" where
  "patchdelrange_loop bDelAll start end modbase restore [] = ([], [])"
| "patchdelrange_loop bDelAll start end modbase restore (i # rest) =
     (let (kept, writes) = patchdelrange_loop bDelAll start end modbase restore rest in
      if bDelAll \<or> (addr (snd i) \<ge> start \<and> addr (snd i) < end)
      then (kept, (if restore then [MemWrite (addr (snd i) + modbase) (oldbyte (snd i))] else []) @ writes)
      else (i # kept, writes))"

definition patchdelrange ::
  "('w::len) word env \<Rightarrow> 'w PatchesInfo \<Rightarrow> 'w word \<Rightarrow> 'w word \<Rightarrow> bool \<Rightarrow> 'w PatchesInfo \<times> 'w word event list" where
  "patchdelrange env patches start end restore =
     (if \<not> DbgIsDebugging env then (patches, [])
      else
        let bDelAll = (start = 0 \<and> end = - 1);
            modbase = modbasefromaddr env start
        in if modbase \<noteq> modbasefromaddr env end then (patches, [])
           else patchdelrange_loop bDelAll (start - modbase) (end - modbase) modbase restore patches)"

text \<open>The argument \<^verbatim>\<open>const char* mod\<close> is \<open>None\<close> for a null pointer.\<close>

fun patchclear_loop :: "string \<Rightarrow> 'w PatchesInfo \<Rightarrow> 'w PatchesInfo" where
  "patchclear_loop m [] = []"
| "patchclear_loop m (i # rest) =
     (if stricmp (mod_name (snd i)) m = 0 then patchclear_loop m rest
      else i # patchclear_loop m rest)"

definition patchclear :: "'w PatchesInfo \<Rightarrow> string option \<Rightarrow> 'w PatchesInfo" where
  "patchclear patches m =
     (case m of
        None \<Rightarrow> []
      | Some s \<Rightarrow> if s = [] then [] else patchclear_loop s patches)"

subsection \<open>\<^verbatim>\<open>patchenum\<close>\<close>

text \<open>
  The buffer \<^verbatim>\<open>PATCHINFO* patcheslist\<close> is \<open>None\<close> for a null pointer and
  \<open>Some buf\<close> for an array of \<open>length buf\<close> records; \<^verbatim>\<open>size_t* cbsize\<close> is
  \<open>None\<close> for a null pointer and \<open>Some n\<close> for a pointer to \<open>n\<close>.  The result
  holds both after the call.  The fill loop stores record \<open>j\<close> at index \<open>j\<close>
  without looking at any size, so a buffer that is too short is overrun.  The byte
  count is a natural number (a map that fits in memory cannot overflow it).
\<close>

fun patchenum_loop ::
  "('w::len) word env \<Rightarrow> 'w PatchesInfo \<Rightarrow> nat \<Rightarrow> 'w word PATCHINFO list
   \<Rightarrow> fault + 'w word PATCHINFO list" where
  "patchenum_loop env [] j patcheslist = Inr patcheslist"
| "patchenum_loop env (i # rest) j patcheslist =
     (if j \<ge> length patcheslist then Inl BufferOverrun
      else
        let copied = snd i;
            modbase = modbasefromname env (mod_name copied)
        in patchenum_loop env rest (j + 1)
             (patcheslist[j := copied\<lparr>addr := addr copied + modbase\<rparr>]))"

definition patchenum ::
  "('w::len) word env \<Rightarrow> 'w PatchesInfo \<Rightarrow> 'w word PATCHINFO list option \<Rightarrow> nat option
   \<Rightarrow> fault + (bool \<times> 'w word PATCHINFO list option \<times> nat option)" where
  "patchenum env patches patcheslist cbsize =
     (if \<not> DbgIsDebugging env then Inr (False, patcheslist, cbsize)
      else case patcheslist of
             None \<Rightarrow>
               (case cbsize of
                  None \<Rightarrow> Inr (False, None, None)
                | Some _ \<Rightarrow> Inr (True, None, Some (length patches * sizeof_LOOPSINFO env)))
           | Some buf \<Rightarrow>
               (case patchenum_loop env patches 0 buf of
                  Inl f \<Rightarrow> Inl f
                | Inr buf' \<Rightarrow> Inr (True, Some buf', cbsize)))"

subsection \<open>\<^verbatim>\<open>patchfile\<close>\<close>

text \<open>
  The array \<^verbatim>\<open>patchlist\<close> with its \<^verbatim>\<open>count\<close> elements is a list.  The buffer
  \<^verbatim>\<open>char* error\<close> is \<open>None\<close> for a null pointer and \<open>Some s\<close> for a buffer that
  holds \<open>s\<close>.  The result is the value returned (or the fault that stops the call),
  the error buffer after the call, and the events in order.
\<close>

definition write_error :: "string option \<Rightarrow> string \<Rightarrow> string option" where
  "write_error error msg = (case error of None \<Rightarrow> None | Some _ \<Rightarrow> Some msg)"

text \<open>The first loop: is some record in another module than \<open>modname\<close>?\<close>

fun patchfile_mismatch :: "string \<Rightarrow> 'a PATCHINFO list \<Rightarrow> bool" where
  "patchfile_mismatch modname [] = False"
| "patchfile_mismatch modname (p # ps) =
     (if stricmp (mod_name p) modname \<noteq> 0 then True else patchfile_mismatch modname ps)"

text \<open>
  The second loop, from index \<open>i\<close> with \<open>patched\<close> bytes written so far: the
  result is the final count and the events of the loop.
\<close>

fun patchfile_loop ::
  "('w::len) word env \<Rightarrow> string \<Rightarrow> 'w word \<Rightarrow> 32 word \<Rightarrow> 'w word \<Rightarrow> 'w word PATCHINFO list
   \<Rightarrow> int \<Rightarrow> int \<Rightarrow> int \<times> 'w word event list" where
  "patchfile_loop env modname modbase LoadedSize FileMapVA [] i patched = (patched, [])"
| "patchfile_loop env modname modbase LoadedSize FileMapVA (p # ps) i patched =
     (let ptr = ConvertVAtoFileOffsetEx env FileMapVA LoadedSize modbase (addr p) in
      if ptr = 0 then patchfile_loop env modname modbase LoadedSize FileMapVA ps (i + 1) patched
      else
        let (n, evs) = patchfile_loop env modname modbase LoadedSize FileMapVA ps (i + 1) (patched + 1)
        in (n, Dprintf (i + 1) modname (ptr - FileMapVA) (oldbyte p) (newbyte p)
               # FileWrite ptr (newbyte p) # evs))"

definition patchfile ::
  "('w::len) word env \<Rightarrow> 'w word PATCHINFO list \<Rightarrow> string \<Rightarrow> string option
   \<Rightarrow> (fault + int) \<times> string option \<times> 'w word event list" where
  "patchfile env patchlist szFileName error =
     (if patchlist = [] then (Inr (- 1), write_error error ''no patches to apply'', [])
      else
        let modname = mod_name (hd patchlist) in
        if patchfile_mismatch modname patchlist
        then (Inr (- 1), write_error error (''not all patches are in module '' @ modname), [])
        else
          let modbase = modbasefromname env modname in
          if modbase = 0
          then (Inr (- 1), write_error error (''failed to get base of module '' @ modname), [])
          else
            (case GetModuleFileNameExA env modbase of
               None \<Rightarrow>
                 (Inr (- 1),
                  write_error error (''failed to get module path of module '' @ modname), [])
             | Some szOriginalName \<Rightarrow>
                 if \<not> CopyFileA env szOriginalName szFileName
                 then (Inr (- 1),
                       write_error error
                         ''failed to make a copy of the original file (patch target is in use?)'',
                       [CopyFile szOriginalName szFileName])
                 else
                   (case StaticFileLoad env szFileName of
                      Some (LoadedSize, FileMapVA) \<Rightarrow>
                        (let (patched, evs) =
                               patchfile_loop env modname modbase LoadedSize FileMapVA patchlist 0 0;
                             trace = [CopyFile szOriginalName szFileName, FileLoad szFileName]
                                     @ evs @ [FileUnload szFileName]
                         in if \<not> StaticFileUnload env szFileName
                            then (Inr (- 1), write_error error ''StaticFileUnload failed'', trace)
                            else (Inr patched, error, trace))
                    | None \<Rightarrow>
                        (case error of
                           None \<Rightarrow>
                             (Inl NullPointerWrite, None,
                              [CopyFile szOriginalName szFileName, FileLoad szFileName])
                         | Some _ \<Rightarrow>
                             (Inr (- 1), Some ''StaticFileLoad failed'',
                              [CopyFile szOriginalName szFileName, FileLoad szFileName])))))"

subsection \<open>Sequences of calls and reachable ledgers\<close>

text \<open>
  \<open>patchset_seq\<close> runs \<^verbatim>\<open>patchset\<close> on one address for a list of
  (old byte, new byte) pairs, threading the ledger; its first component says that every
  call returned \<^verbatim>\<open>true\<close>.
\<close>

fun patchset_seq ::
  "('w::len) word env \<Rightarrow> 'w PatchesInfo \<Rightarrow> 'w word \<Rightarrow> (byte \<times> byte) list \<Rightarrow> bool \<times> 'w PatchesInfo" where
  "patchset_seq env patches a [] = (True, patches)"
| "patchset_seq env patches a (c # cs) =
     (let (r, patches') = patchset env patches a (fst c) (snd c);
          (rs, patches'') = patchset_seq env patches' a cs
      in (r \<and> rs, patches''))"

text \<open>
  The chain never fully collapses: at no call of the sequence is there a stored record
  for the address whose original byte equals the new byte of the call.
\<close>

fun never_collapses ::
  "('w::len) word env \<Rightarrow> 'w PatchesInfo \<Rightarrow> 'w word \<Rightarrow> (byte \<times> byte) list \<Rightarrow> bool" where
  "never_collapses env patches a [] = True"
| "never_collapses env patches a (c # cs) =
     ((case patches_find (modhashfromva env a) patches of
         None \<Rightarrow> True
       | Some found \<Rightarrow> oldbyte found \<noteq> snd c)
      \<and> never_collapses env (snd (patchset env patches a (fst c) (snd c))) a cs)"

text \<open>
  The ledgers that the four mutating operations can produce from the empty map, in any
  order, with any arguments and in any state of the debugger.
\<close>

inductive reachable :: "('w::len) PatchesInfo \<Rightarrow> bool" where
  reach_empty: "reachable []"
| reach_set: "reachable patches \<Longrightarrow> reachable (snd (patchset env patches a ob nb))"
| reach_del: "reachable patches \<Longrightarrow> reachable (fst (snd (patchdel env patches a restore)))"
| reach_delrange:
    "reachable patches \<Longrightarrow> reachable (fst (patchdelrange env patches start end restore))"
| reach_clear: "reachable patches \<Longrightarrow> reachable (patchclear patches m)"

subsection \<open>Reading the events of \<^verbatim>\<open>patchfile\<close>\<close>

text \<open>The stores into the mapped file copy among a list of events.\<close>

fun is_FileWrite :: "'a event \<Rightarrow> bool" where
  "is_FileWrite (FileWrite p b) = True"
| "is_FileWrite e = False"

text \<open>The record's address translates to a raw file offset (the pointer is not null).\<close>

definition has_raw_offset ::
  "('w::len) word env \<Rightarrow> 'w word \<Rightarrow> 32 word \<Rightarrow> 'w word \<Rightarrow> 'w word PATCHINFO \<Rightarrow> bool" where
  "has_raw_offset env FileMapVA LoadedSize modbase p =
     (ConvertVAtoFileOffsetEx env FileMapVA LoadedSize modbase (addr p) \<noteq> 0)"

subsection \<open>A debugging session to run the functions on\<close>

text \<open>
  A 32-bit session with two loaded modules: \<^verbatim>\<open>app.exe\<close> at \<open>0x400000\<close> and
  \<^verbatim>\<open>lib.dll\<close> at \<open>0x10000000\<close>, one megabyte each.  An address outside both has
  module base 0 and an empty module name.  The file of a module maps the addresses
  \<open>base + 0x1000 .. base + 0x1FFF\<close> to raw offsets from \<open>0x400\<close>.  The two
  structure sizes are sample values for a build in which the loop record (a module
  name, three addresses, a depth and a flag) is larger than the patch record (a module
  name, one address and two bytes).
\<close>

definition in_app :: "32 word \<Rightarrow> bool" where
  "in_app a = (0x400000 \<le> a \<and> a < 0x500000)"

definition in_lib :: "32 word \<Rightarrow> bool" where
  "in_lib a = (0x10000000 \<le> a \<and> a < 0x10100000)"

definition session :: "32 word env" where
  "session =
     \<lparr>DbgIsDebugging = True,
      memisvalidreadptr = (\<lambda>a. in_app a \<or> in_lib a),
      modbasefromaddr = (\<lambda>a. if in_app a then 0x400000 else if in_lib a then 0x10000000 else 0),
      modnamefromaddr = (\<lambda>a. if in_app a then ''app.exe'' else if in_lib a then ''lib.dll'' else []),
      modhashfromva =
        (\<lambda>a. if in_app a then 0xA0000000 + (a - 0x400000)
             else if in_lib a then 0xB0000000 + (a - 0x10000000) else a),
      modbasefromname =
        (\<lambda>n. if stricmp n ''app.exe'' = 0 then 0x400000
             else if stricmp n ''lib.dll'' = 0 then 0x10000000 else 0),
      sizeof_LOOPSINFO = 276,
      sizeof_PATCHINFO = 264,
      GetModuleFileNameExA =
        (\<lambda>b. if b = 0x400000 then Some ''app.exe''
             else if b = 0x10000000 then Some ''lib.dll'' else None),
      CopyFileA = (\<lambda>src dst. True),
      StaticFileLoad = (\<lambda>f. Some (0x2000, 0x20000000)),
      ConvertVAtoFileOffsetEx =
        (\<lambda>FileMapVA LoadedSize modbase va.
           if modbase + 0x1000 \<le> va \<and> va < modbase + 0x2000
           then FileMapVA + 0x400 + (va - (modbase + 0x1000)) else 0),
      StaticFileUnload = (\<lambda>f. True)\<rparr>"

section \<open>Properties\<close>

subsection \<open>The map operations\<close>

lemma find_insert: "patches_find k m = None \<Longrightarrow> patches_find k (patches_insert k v m) = Some v"
  by (induction m) (auto simp: patches_find_def)

lemma find_assign: "patches_find k m = Some x \<Longrightarrow> patches_find k (patches_assign k v m) = Some v"
  by (induction m) (auto simp: patches_find_def patches_assign_def split: if_splits)

lemma find_erase: "patches_find k (patches_erase k m) = None"
  by (induction m) (auto simp: patches_find_def patches_erase_def)

lemma erase_insert: "patches_find k m = None \<Longrightarrow> patches_erase k (patches_insert k v m) = m"
proof (induction m)
  case Nil
  show ?case by (simp add: patches_erase_def)
next
  case (Cons e es)
  from Cons.prems have ne: "fst e \<noteq> k" and rest: "patches_find k es = None"
    by (cases e; auto simp: patches_find_def split: if_splits)+
  have "filter (\<lambda>e. fst e \<noteq> k) es = es"
    using rest by (induction es) (auto simp: patches_find_def split: if_splits)
  with ne Cons.IH [OF rest] show ?case
    by (auto simp: patches_erase_def)
qed

lemma patchset_seq_success_head:
  "fst (patchset_seq env patches a (c # cs)) \<Longrightarrow>
     DbgIsDebugging env \<and> memisvalidreadptr env a
     \<and> fst (patchset_seq env (snd (patchset env patches a (fst c) (snd c))) a cs)"
  by (auto simp: patchset_def Let_def split: prod.splits if_splits option.splits)

lemma patchset_seq_snd_Cons:
  "snd (patchset_seq env patches a (c # cs)) =
     snd (patchset_seq env (snd (patchset env patches a (fst c) (snd c))) a cs)"
  by (simp split: prod.splits)

lemma chain_continues:
  assumes "patches_find (modhashfromva env a) patches = Some p"
      and "fst (patchset_seq env patches a cs)"
      and "never_collapses env patches a cs"
  shows "\<exists>q. patches_find (modhashfromva env a) (snd (patchset_seq env patches a cs)) = Some q
           \<and> oldbyte q = oldbyte p
           \<and> newbyte q = (if cs \<noteq> [] \<and> fst (last cs) \<noteq> snd (last cs) then snd (last cs) else newbyte q)
           \<and> (cs = [] \<longrightarrow> q = p)"
  using assms
proof (induction cs arbitrary: patches p)
  case Nil
  then show ?case by simp
next
  case (Cons c cs)
  let ?k = "modhashfromva env a"
  let ?P = "snd (patchset env patches a (fst c) (snd c))"
  from Cons.prems(2) have ok: "DbgIsDebugging env" "memisvalidreadptr env a"
    and rest_ok: "fst (patchset_seq env ?P a cs)"
    using patchset_seq_success_head by blast+
  from Cons.prems(3) have nc: "never_collapses env ?P a cs" by simp
  from Cons.prems(1,3) have keep: "oldbyte p \<noteq> snd c" by simp
  have "\<exists>p'. patches_find ?k ?P = Some p' \<and> oldbyte p' = oldbyte p
          \<and> (fst c \<noteq> snd c \<longrightarrow> newbyte p' = snd c)"
  proof (cases "fst c = snd c")
    case True
    with ok Cons.prems(1) show ?thesis by (simp add: patchset_def)
  next
    case False
    with ok Cons.prems(1) keep show ?thesis
      by (simp add: patchset_def Let_def find_assign)
  qed
  then obtain p' where p': "patches_find ?k ?P = Some p'" "oldbyte p' = oldbyte p"
      "fst c \<noteq> snd c \<longrightarrow> newbyte p' = snd c" by blast
  from Cons.IH [OF p'(1) rest_ok nc] obtain q where
    q: "patches_find ?k (snd (patchset_seq env ?P a cs)) = Some q" "oldbyte q = oldbyte p'"
       "newbyte q = (if cs \<noteq> [] \<and> fst (last cs) \<noteq> snd (last cs) then snd (last cs) else newbyte q)"
       "cs = [] \<longrightarrow> q = p'" by blast
  show ?case
  proof (cases "cs = []")
    case True
    with q p' show ?thesis by (auto simp: patchset_seq_snd_Cons simp del: patchset_seq.simps)
  next
    case False
    with q p' show ?thesis by (auto simp: patchset_seq_snd_Cons simp del: patchset_seq.simps)
  qed
qed

lemma set_patches_insert: "set (patches_insert k v m) \<subseteq> insert (k, v) (set m)"
  by (induction m) auto

lemma set_patches_assign: "set (patches_assign k v m) \<subseteq> insert (k, v) (set m)"
  by (auto simp: patches_assign_def)

lemma set_patches_erase: "set (patches_erase k m) \<subseteq> set m"
  by (auto simp: patches_erase_def)

lemma patches_find_in_set: "patches_find k m = Some p \<Longrightarrow> (k, p) \<in> set m"
  by (simp add: patches_find_def map_of_SomeD)

text \<open>The operations keep the keys strictly ascending, so the list is a map.\<close>

lemma patches_ok_insert: "patches_ok m \<Longrightarrow> patches_ok (patches_insert k v m)"
proof (induction m)
  case Nil
  show ?case by (simp add: patches_ok_def)
next
  case (Cons e es)
  from Cons.prems have tl: "patches_ok es" and hd: "\<forall>x \<in> set es. fst e < fst x"
    by (auto simp: patches_ok_def)
  show ?case
  proof (cases "k < fst e")
    case True
    with Cons.prems show ?thesis by (auto simp: patches_ok_def)
  next
    case False
    show ?thesis
    proof (cases "k = fst e")
      case True
      with Cons.prems show ?thesis by simp
    next
      case ne: False
      with False have lt: "fst e < k" by simp
      from Cons.IH [OF tl] have "patches_ok (patches_insert k v es)" .
      moreover have "\<forall>x \<in> set (patches_insert k v es). fst e < fst x"
      proof
        fix x assume "x \<in> set (patches_insert k v es)"
        then have "x = (k, v) \<or> x \<in> set es"
          using set_patches_insert [of k v es] by blast
        then show "fst e < fst x" using hd lt by auto
      qed
      ultimately show ?thesis using False ne by (simp add: patches_ok_def)
    qed
  qed
qed

lemma patches_ok_filter: "patches_ok m \<Longrightarrow> patches_ok (filter P m)"
  by (induction m) (auto simp: patches_ok_def)

lemma patches_ok_assign: "patches_ok m \<Longrightarrow> patches_ok (patches_assign k v m)"
proof -
  have "map fst (patches_assign k v m) = map fst m"
    by (induction m) (auto simp: patches_assign_def)
  then show "patches_ok m \<Longrightarrow> patches_ok (patches_assign k v m)"
    by (simp add: patches_ok_def)
qed

lemma patches_ok_patchset: "patches_ok m \<Longrightarrow> patches_ok (snd (patchset env m a ob nb))"
  by (auto simp: patchset_def Let_def patches_erase_def
        intro: patches_ok_insert patches_ok_assign patches_ok_filter split: option.splits)

subsection \<open>The loops as filters\<close>

lemma patchdelrange_loop_kept:
  "fst (patchdelrange_loop bDelAll s e modbase restore patches) =
     filter (\<lambda>i. \<not> (bDelAll \<or> (s \<le> addr (snd i) \<and> addr (snd i) < e))) patches"
  by (induction patches) (auto split: prod.splits)

lemma patchdelrange_loop_writes:
  "snd (patchdelrange_loop bDelAll s e modbase restore patches) =
     (if restore
      then map (\<lambda>i. MemWrite (addr (snd i) + modbase) (oldbyte (snd i)))
             (filter (\<lambda>i. bDelAll \<or> (s \<le> addr (snd i) \<and> addr (snd i) < e)) patches)
      else [])"
  by (induction patches) (auto split: prod.splits)

lemma patchclear_loop_filter:
  "patchclear_loop s m = filter (\<lambda>i. stricmp (mod_name (snd i)) s \<noteq> 0) m"
  by (induction m) auto

lemma patchfile_mismatch_iff:
  "patchfile_mismatch modname ps \<longleftrightarrow> (\<exists>p \<in> set ps. stricmp (mod_name p) modname \<noteq> 0)"
  by (induction ps) auto

lemma patchfile_loop_count:
  "fst (patchfile_loop env modname modbase sz fm ps i patched) =
     patched + int (length (filter (has_raw_offset env fm sz modbase) ps))"
  by (induction ps arbitrary: i patched) (simp_all add: has_raw_offset_def Let_def case_prod_beta)

lemma patchfile_loop_writes:
  "filter is_FileWrite (snd (patchfile_loop env modname modbase sz fm ps i patched)) =
     map (\<lambda>p. FileWrite (ConvertVAtoFileOffsetEx env fm sz modbase (addr p)) (newbyte p))
       (filter (has_raw_offset env fm sz modbase) ps)"
  by (induction ps arbitrary: i patched) (simp_all add: has_raw_offset_def Let_def case_prod_beta)

lemma patchenum_loop_fills:
  "j + length patches \<le> length buf \<Longrightarrow>
     patchenum_loop env patches j buf =
       Inr (take j buf
            @ map (\<lambda>i. (snd i)\<lparr>addr := addr (snd i) + modbasefromname env (mod_name (snd i))\<rparr>) patches
            @ drop (j + length patches) buf)"
proof (induction patches arbitrary: j buf)
  case Nil
  then show ?case by simp
next
  case (Cons i rest)
  let ?r = "(snd i)\<lparr>addr := addr (snd i) + modbasefromname env (mod_name (snd i))\<rparr>"
  from Cons.prems have j: "j < length buf" by simp
  from Cons.prems have "Suc j + length rest \<le> length (buf[j := ?r])" by simp
  from Cons.IH [OF this] j show ?case
    by (simp add: Let_def upd_conv_take_nth_drop take_Suc_conv_app_nth add.commute)
qed

subsection \<open>\<^verbatim>\<open>_stricmp\<close> is an equivalence\<close>

lemma stricmp_zero_iff: "stricmp s t = 0 \<longleftrightarrow> map tolower s = map tolower t"
  by (induction s t rule: stricmp.induct) auto

subsection \<open>A patch of a byte by itself\<close>

text \<open>
  C8.  With an active session and a readable address, \<open>set(addr, b, b)\<close> returns
  \<^verbatim>\<open>true\<close> and leaves the ledger as it is: no record is created, changed or
  deleted.
\<close>

theorem patchset_same_byte_noop:
  assumes "DbgIsDebugging env" and "memisvalidreadptr env a"
  shows "patchset env patches a b b = (True, patches)"
  using assms by (simp add: patchset_def)

text \<open>A ledger with a record at the very address: the call leaves the record alone.\<close>

theorem patchset_same_byte_noop_witness:
  "DbgIsDebugging session \<and> memisvalidreadptr session 0x401000
   \<and> patchset session [(0xA0001000, \<lparr>mod_name = ''app.exe'', addr = 0x1000, oldbyte = 0x90, newbyte = 0xCC\<rparr>)]
        0x401000 0xCC 0xCC
      = (True, [(0xA0001000, \<lparr>mod_name = ''app.exe'', addr = 0x1000, oldbyte = 0x90, newbyte = 0xCC\<rparr>)])"
  using patchset_same_byte_noop [of session "0x401000" _ "0xCC"]
  by (simp add: session_def in_app_def)

subsection \<open>Undoing a patch\<close>

text \<open>
  C5.  For an address with no stored record and bytes \<open>o \<noteq> n\<close>, \<open>set(addr, o, n)\<close>
  followed by \<open>set(addr, n, o)\<close> leaves no record for the address; the ledger is
  again the one before the two calls.
\<close>

theorem patchset_self_undo:
  assumes "patches_find (modhashfromva env a) patches = None" and "ob \<noteq> nb"
  shows "patches_find (modhashfromva env a)
           (snd (patchset env (snd (patchset env patches a ob nb)) a nb ob)) = None
       \<and> snd (patchset env (snd (patchset env patches a ob nb)) a nb ob) = patches"
proof (cases "DbgIsDebugging env \<and> memisvalidreadptr env a")
  case False
  with assms show ?thesis by (auto simp: patchset_def)
next
  case True
  let ?new = "\<lparr>mod_name = modnamefromaddr env a, addr = a - modbasefromaddr env a,
                oldbyte = ob, newbyte = nb\<rparr>"
  let ?k = "modhashfromva env a"
  from True assms have one: "snd (patchset env patches a ob nb) = patches_insert ?k ?new patches"
    by (simp add: patchset_def Let_def)
  have found: "patches_find ?k (patches_insert ?k ?new patches) = Some ?new"
    using assms(1) by (rule find_insert)
  from True assms(2) found
  have two: "snd (patchset env (patches_insert ?k ?new patches) a nb ob) =
               patches_erase ?k (patches_insert ?k ?new patches)"
    by (simp add: patchset_def Let_def)
  from one two assms(1) show ?thesis
    by (simp add: erase_insert)
qed

text \<open>The scenario of the specification: \<open>0x90 \<rightarrow> 0xCC \<rightarrow> 0x90\<close> at \<open>0x401000\<close>.\<close>

theorem patchset_self_undo_witness:
  "patches_find (modhashfromva session 0x401000) [] = None
   \<and> patches_find (modhashfromva session 0x401000)
        (snd (patchset session (snd (patchset session [] 0x401000 0x90 0xCC)) 0x401000 0xCC 0x90)) = None
   \<and> snd (patchset session (snd (patchset session [] 0x401000 0x90 0xCC)) 0x401000 0xCC 0x90) = []"
  using patchset_self_undo [of session "0x401000" "[]" "0x90" "0xCC"]
  by (simp add: patches_find_def)

subsection \<open>Chains of patches on one address\<close>

text \<open>
  C1 (as amended).  Take an address with no stored record and a non-empty sequence of
  calls \<open>set(addr, o1, n1), ..., set(addr, ok, nk)\<close> that all return \<^verbatim>\<open>true\<close>,
  in which no call's new byte equals the original byte stored at that moment, and
  whose first and last call really change the byte (\<open>o1 \<noteq> n1\<close>, \<open>ok \<noteq> nk\<close>).
  Then the record stored for the address after the sequence has
  \<open>oldbyte = o1\<close> and \<open>newbyte = nk\<close>.
\<close>

theorem patchset_chain_original:
  assumes "patches_find (modhashfromva env a) patches = None"
      and "calls \<noteq> []"
      and "fst (patchset_seq env patches a calls)"
      and "never_collapses env patches a calls"
      and "fst (hd calls) \<noteq> snd (hd calls)"
      and "fst (last calls) \<noteq> snd (last calls)"
  shows "map_option oldbyte (patches_find (modhashfromva env a) (snd (patchset_seq env patches a calls)))
           = Some (fst (hd calls))
       \<and> map_option newbyte (patches_find (modhashfromva env a) (snd (patchset_seq env patches a calls)))
           = Some (snd (last calls))"
proof -
  let ?k = "modhashfromva env a"
  from assms(2) obtain c cs where calls: "calls = c # cs" by (cases calls) auto
  let ?P = "snd (patchset env patches a (fst c) (snd c))"
  from assms(3) calls have ok: "DbgIsDebugging env" "memisvalidreadptr env a"
    and rest_ok: "fst (patchset_seq env ?P a cs)"
    using patchset_seq_success_head by blast+
  from assms(4) calls have nc: "never_collapses env ?P a cs" by simp
  from assms(5) calls have ne: "fst c \<noteq> snd c" by simp
  let ?new = "\<lparr>mod_name = modnamefromaddr env a, addr = a - modbasefromaddr env a,
                oldbyte = fst c, newbyte = snd c\<rparr>"
  from ok ne assms(1) have first: "patches_find ?k ?P = Some ?new"
    by (simp add: patchset_def Let_def find_insert)
  from chain_continues [OF first rest_ok nc] obtain q where
    q: "patches_find ?k (snd (patchset_seq env ?P a cs)) = Some q" "oldbyte q = fst c"
       "newbyte q = (if cs \<noteq> [] \<and> fst (last cs) \<noteq> snd (last cs) then snd (last cs) else newbyte q)"
       "cs = [] \<longrightarrow> q = ?new" by auto
  show ?thesis
  proof (cases "cs = []")
    case True
    with q calls show ?thesis by (auto simp: patchset_seq_snd_Cons simp del: patchset_seq.simps)
  next
    case False
    with q calls assms(6) show ?thesis by (auto simp: patchset_seq_snd_Cons simp del: patchset_seq.simps)
  qed
qed

text \<open>The scenario of the specification: \<open>0x90 \<rightarrow> 0xCC \<rightarrow> 0xE9\<close> at \<open>0x401000\<close>.\<close>

theorem patchset_chain_original_witness:
  "fst (patchset_seq session [] 0x401000 [(0x90, 0xCC), (0xCC, 0xE9)])
   \<and> never_collapses session [] 0x401000 [(0x90, 0xCC), (0xCC, 0xE9)]
   \<and> map_option oldbyte (patches_find (modhashfromva session 0x401000)
       (snd (patchset_seq session [] 0x401000 [(0x90, 0xCC), (0xCC, 0xE9)]))) = Some 0x90
   \<and> map_option newbyte (patches_find (modhashfromva session 0x401000)
       (snd (patchset_seq session [] 0x401000 [(0x90, 0xCC), (0xCC, 0xE9)]))) = Some 0xE9"
  using patchset_chain_original [of session "0x401000" "[]" "[(0x90, 0xCC), (0xCC, 0xE9)]"]
  by (simp add: session_def in_app_def in_lib_def patches_find_def patchset_def
        patches_assign_def patches_erase_def Let_def)

text \<open>
  C1 as it is written fails for a call that does not change the byte: such a call
  returns \<^verbatim>\<open>true\<close> and stores nothing.  After \<open>set(addr, 5, 5)\<close>,
  \<open>set(addr, 7, 9)\<close> the stored original is 7, not 5; after \<open>set(addr, 1, 2)\<close>,
  \<open>set(addr, 3, 3)\<close> the stored current byte is 2, not 3.  It also fails when a
  record is stored before the first call: on the record \<open>1 \<rightarrow> 2\<close> the call
  \<open>set(addr, 2, 3)\<close> keeps the original 1, not 2.
\<close>

theorem patchset_chain_noop_counterexample:
  "fst (patchset_seq session [] 0x401000 [(5, 5), (7, 9)])
   \<and> never_collapses session [] 0x401000 [(5, 5), (7, 9)]
   \<and> map_option oldbyte (patches_find (modhashfromva session 0x401000)
        (snd (patchset_seq session [] 0x401000 [(5, 5), (7, 9)]))) = Some 7
   \<and> map_option oldbyte (patches_find (modhashfromva session 0x401000)
        (snd (patchset_seq session [] 0x401000 [(5, 5), (7, 9)]))) \<noteq> Some 5
   \<and> fst (patchset_seq session [] 0x401000 [(1, 2), (3, 3)])
   \<and> never_collapses session [] 0x401000 [(1, 2), (3, 3)]
   \<and> map_option newbyte (patches_find (modhashfromva session 0x401000)
        (snd (patchset_seq session [] 0x401000 [(1, 2), (3, 3)]))) = Some 2
   \<and> map_option newbyte (patches_find (modhashfromva session 0x401000)
        (snd (patchset_seq session [] 0x401000 [(1, 2), (3, 3)]))) \<noteq> Some 3
   \<and> fst (patchset_seq session
        [(0xA0001000, \<lparr>mod_name = ''app.exe'', addr = 0x1000, oldbyte = 1, newbyte = 2\<rparr>)]
        0x401000 [(2, 3)])
   \<and> never_collapses session
        [(0xA0001000, \<lparr>mod_name = ''app.exe'', addr = 0x1000, oldbyte = 1, newbyte = 2\<rparr>)]
        0x401000 [(2, 3)]
   \<and> map_option oldbyte (patches_find (modhashfromva session 0x401000)
        (snd (patchset_seq session
           [(0xA0001000, \<lparr>mod_name = ''app.exe'', addr = 0x1000, oldbyte = 1, newbyte = 2\<rparr>)]
           0x401000 [(2, 3)]))) = Some 1"
  by (simp add: session_def in_app_def in_lib_def patches_find_def patchset_def
        patches_assign_def patches_erase_def Let_def)

subsection \<open>Ledgers that the operations can produce\<close>

lemma set_patchset:
  "set (snd (patchset env patches a ob nb)) \<subseteq>
     set patches \<union> {e. oldbyte (snd e) \<noteq> newbyte (snd e)}"
proof -
  let ?k = "modhashfromva env a"
  let ?new = "\<lparr>mod_name = modnamefromaddr env a, addr = a - modbasefromaddr env a,
                oldbyte = ob, newbyte = nb\<rparr>"
  let ?res = "snd (patchset env patches a ob nb)"
  consider (same) "?res = patches"
    | (ins) "ob \<noteq> nb" "?res = patches_insert ?k ?new patches"
    | (undo) "?res = patches_erase ?k patches"
    | (merge) orig where "orig \<noteq> nb"
        "?res = patches_assign ?k (?new\<lparr>oldbyte := orig\<rparr>) patches"
  proof (cases "DbgIsDebugging env \<and> memisvalidreadptr env a \<and> ob \<noteq> nb")
    case False
    then have "?res = patches" by (auto simp: patchset_def)
    then show ?thesis by (rule same)
  next
    case go: True
    show ?thesis
    proof (cases "patches_find ?k patches")
      case None
      with go have "?res = patches_insert ?k ?new patches" by (simp add: patchset_def Let_def)
      with go show ?thesis using ins by blast
    next
      case (Some found)
      show ?thesis
      proof (cases "oldbyte found = nb")
        case True
        with go Some have "?res = patches_erase ?k patches" by (simp add: patchset_def Let_def)
        then show ?thesis by (rule undo)
      next
        case False
        with go Some
        have "?res = patches_assign ?k (?new\<lparr>oldbyte := oldbyte found\<rparr>) patches"
          by (simp add: patchset_def Let_def)
        with False show ?thesis using merge by blast
      qed
    qed
  qed
  then show ?thesis
  proof cases
    case same
    then show ?thesis by auto
  next
    case ins
    have "set (patches_insert ?k ?new patches) \<subseteq> insert (?k, ?new) (set patches)"
      by (rule set_patches_insert)
    with ins show ?thesis by auto
  next
    case undo
    with set_patches_erase [of ?k patches] show ?thesis by auto
  next
    case merge
    have "set (patches_assign ?k (?new\<lparr>oldbyte := orig\<rparr>) patches)
            \<subseteq> insert (?k, ?new\<lparr>oldbyte := orig\<rparr>) (set patches)"
      by (rule set_patches_assign)
    with merge show ?thesis by auto
  qed
qed

lemma set_patchdel: "set (fst (snd (patchdel env patches a restore))) \<subseteq> set patches"
  using set_patches_erase [of "modhashfromva env a" patches]
  by (auto simp: patchdel_def Let_def split: option.splits)

lemma set_patchdelrange: "set (fst (patchdelrange env patches s e restore)) \<subseteq> set patches"
  by (auto simp: patchdelrange_def Let_def patchdelrange_loop_kept)

lemma set_patchclear: "set (patchclear patches m) \<subseteq> set patches"
  by (auto simp: patchclear_def patchclear_loop_filter split: option.splits)

lemma reachable_changed:
  "reachable patches \<Longrightarrow> e \<in> set patches \<Longrightarrow> oldbyte (snd e) \<noteq> newbyte (snd e)"
proof (induction arbitrary: e rule: reachable.induct)
  case reach_empty
  then show ?case by simp
next
  case (reach_set patches env a ob nb)
  then show ?case using set_patchset [of env patches a ob nb] by blast
next
  case (reach_del patches env a restore)
  then show ?case using set_patchdel [of env patches a restore] by blast
next
  case (reach_delrange patches env start "end" restore)
  then show ?case using set_patchdelrange [of env patches start "end" restore] by blast
next
  case (reach_clear patches m)
  then show ?case using set_patchclear [of patches m] by blast
qed

lemma reachable_patches_ok: "reachable patches \<Longrightarrow> patches_ok patches"
proof (induction rule: reachable.induct)
  case reach_empty
  show ?case by (simp add: patches_ok_def)
next
  case (reach_set patches env a ob nb)
  then show ?case by (simp add: patches_ok_patchset)
next
  case (reach_del patches env a restore)
  then show ?case
    by (auto simp: patchdel_def Let_def patches_erase_def intro: patches_ok_filter split: option.splits)
next
  case (reach_delrange patches env start "end" restore)
  then show ?case
    by (auto simp: patchdelrange_def Let_def patchdelrange_loop_kept intro: patches_ok_filter)
next
  case (reach_clear patches m)
  then show ?case
    by (auto simp: patchclear_def patchclear_loop_filter patches_ok_def
          intro: patches_ok_filter [unfolded patches_ok_def] split: option.splits)
qed

text \<open>
  C9 (as amended).  Every record of a ledger that \<^verbatim>\<open>patchset\<close>, \<^verbatim>\<open>patchdel\<close>,
  \<^verbatim>\<open>patchdelrange\<close> and \<^verbatim>\<open>patchclear\<close> produce from the empty ledger has
  \<open>oldbyte \<noteq> newbyte\<close>; consequently, while a debug session is active,
  \<^verbatim>\<open>patchget\<close> without an output record returns \<^verbatim>\<open>true\<close> if and only if
  a record is stored at the key.
\<close>

theorem reachable_original_differs:
  assumes "reachable patches"
  shows "(\<forall>e \<in> set patches. oldbyte (snd e) \<noteq> newbyte (snd e))
       \<and> (DbgIsDebugging env \<longrightarrow>
            fst (patchget env patches a None) = (patches_find (modhashfromva env a) patches \<noteq> None))"
proof (intro conjI ballI impI)
  fix e assume "e \<in> set patches"
  with assms show "oldbyte (snd e) \<noteq> newbyte (snd e)" by (rule reachable_changed)
next
  assume dbg: "DbgIsDebugging env"
  show "fst (patchget env patches a None) = (patches_find (modhashfromva env a) patches \<noteq> None)"
  proof (cases "patches_find (modhashfromva env a) patches")
    case None
    with dbg show ?thesis by (simp add: patchget_def)
  next
    case (Some found)
    then have "(modhashfromva env a, found) \<in> set patches" by (rule patches_find_in_set)
    with assms have "oldbyte found \<noteq> newbyte found" using reachable_changed by fastforce
    with dbg Some show ?thesis by (simp add: patchget_def)
  qed
qed

text \<open>One record at \<open>0x401000\<close>: the query finds it there and nothing one byte further.\<close>

theorem reachable_original_differs_witness:
  "reachable [(0xA0001000, \<lparr>mod_name = ''app.exe'', addr = 0x1000 :: 32 word, oldbyte = 0x90, newbyte = 0xCC\<rparr>)]
   \<and> DbgIsDebugging session
   \<and> fst (patchget session
        [(0xA0001000, \<lparr>mod_name = ''app.exe'', addr = 0x1000, oldbyte = 0x90, newbyte = 0xCC\<rparr>)]
        0x401000 None)
   \<and> \<not> fst (patchget session
        [(0xA0001000, \<lparr>mod_name = ''app.exe'', addr = 0x1000, oldbyte = 0x90, newbyte = 0xCC\<rparr>)]
        0x401001 None)"
proof -
  have "reachable (snd (patchset session [] 0x401000 0x90 0xCC))"
    by (rule reach_set [OF reach_empty])
  then have r: "reachable [(0xA0001000, \<lparr>mod_name = ''app.exe'', addr = 0x1000 :: 32 word, oldbyte = 0x90, newbyte = 0xCC\<rparr>)]"
    by (simp add: patchset_def session_def in_app_def patches_find_def Let_def)
  from r reachable_original_differs [OF r, of session "0x401000"]
    reachable_original_differs [OF r, of session "0x401001"]
  show ?thesis
    by (simp add: session_def in_app_def patches_find_def)
qed

text \<open>
  C9 as it is written fails when no session is active: \<^verbatim>\<open>patchget\<close> returns
  \<^verbatim>\<open>false\<close> at once, with the record still stored at the key.
\<close>

theorem patchget_query_without_session_counterexample:
  "reachable [(0xA0001000, \<lparr>mod_name = ''app.exe'', addr = 0x1000 :: 32 word, oldbyte = 0x90, newbyte = 0xCC\<rparr>)]
   \<and> patches_find (modhashfromva (session\<lparr>DbgIsDebugging := False\<rparr>) 0x401000)
        [(0xA0001000, \<lparr>mod_name = ''app.exe'', addr = 0x1000, oldbyte = 0x90, newbyte = 0xCC\<rparr>)]
      = Some \<lparr>mod_name = ''app.exe'', addr = 0x1000, oldbyte = 0x90, newbyte = 0xCC\<rparr>
   \<and> patchget (session\<lparr>DbgIsDebugging := False\<rparr>)
        [(0xA0001000, \<lparr>mod_name = ''app.exe'', addr = 0x1000, oldbyte = 0x90, newbyte = 0xCC\<rparr>)]
        0x401000 None
      = (False, None)"
proof -
  have "reachable (snd (patchset session [] 0x401000 0x90 0xCC))"
    by (rule reach_set [OF reach_empty])
  then have "reachable [(0xA0001000, \<lparr>mod_name = ''app.exe'', addr = 0x1000 :: 32 word, oldbyte = 0x90, newbyte = 0xCC\<rparr>)]"
    by (simp add: patchset_def session_def in_app_def patches_find_def Let_def)
  then show ?thesis
    by (simp add: session_def in_app_def patches_find_def patchget_def)
qed

subsection \<open>Deleting a range\<close>

text \<open>
  What the loop does for a range inside one module: it removes the records whose
  offset lies in the range, whatever their module, and keeps the others.
\<close>

lemma patchdelrange_range_removed:
  assumes "DbgIsDebugging env" and "modbasefromaddr env s = modbasefromaddr env e"
      and "\<not> (s = 0 \<and> e = - 1)"
  shows "fst (patchdelrange env patches s e restore) =
           filter (\<lambda>i. \<not> (s - modbasefromaddr env s \<le> addr (snd i)
                          \<and> addr (snd i) < e - modbasefromaddr env s)) patches"
  using assms by (auto simp: patchdelrange_def Let_def patchdelrange_loop_kept)

text \<open>
  The ledgers of the next two evaluations are built by \<^verbatim>\<open>patchset\<close>: one patch in
  each module, and one patch in \<^verbatim>\<open>lib.dll\<close> alone.
\<close>

lemma ledger_two_modules:
  "snd (patchset session (snd (patchset session [] 0x402000 0x74 0xEB)) 0x10001000 0x90 0xCC)
     = [(0xA0002000, \<lparr>mod_name = ''app.exe'', addr = 0x2000, oldbyte = 0x74, newbyte = 0xEB\<rparr>),
        (0xB0001000, \<lparr>mod_name = ''lib.dll'', addr = 0x1000, oldbyte = 0x90, newbyte = 0xCC\<rparr>)]"
  by (simp add: session_def in_app_def in_lib_def patchset_def patches_find_def Let_def)

lemma ledger_lib_only:
  "snd (patchset session [] 0x10001000 0x90 0xCC)
     = [(0xB0001000, \<lparr>mod_name = ''lib.dll'', addr = 0x1000, oldbyte = 0x90, newbyte = 0xCC\<rparr>)]"
  by (simp add: session_def in_app_def in_lib_def patchset_def patches_find_def Let_def)

text \<open>
  C2.  After \<open>deleteRange(start, end, false)\<close> with both ends in module \<open>M\<close>,
  a record of another module is to be left unchanged.  The loop compares offsets only
  and never looks at the module of a record: with the range
  \<open>0x401000 .. 0x401010\<close> of \<^verbatim>\<open>app.exe\<close>, the record of \<^verbatim>\<open>lib.dll\<close> at
  offset \<open>0x1000\<close> is erased.
\<close>

theorem patchdelrange_deletes_other_module:
  "modbasefromaddr session 0x401000 = 0x400000
   \<and> modbasefromaddr session 0x401010 = 0x400000
   \<and> patchdelrange session
        [(0xA0002000, \<lparr>mod_name = ''app.exe'', addr = 0x2000, oldbyte = 0x74, newbyte = 0xEB\<rparr>),
         (0xB0001000, \<lparr>mod_name = ''lib.dll'', addr = 0x1000, oldbyte = 0x90, newbyte = 0xCC\<rparr>)]
        0x401000 0x401010 False
     = ([(0xA0002000, \<lparr>mod_name = ''app.exe'', addr = 0x2000, oldbyte = 0x74, newbyte = 0xEB\<rparr>)], [])"
  by (simp add: session_def in_app_def in_lib_def patchset_def patches_find_def Let_def
        patchdelrange_def)

text \<open>
  The wildcard range empties the ledger when the addresses \<open>0\<close> and \<open>~0\<close> have the
  same module base, and every write goes to the offset plus the module base of
  address \<open>0\<close>.
\<close>

lemma patchdelrange_wildcard_empties:
  assumes "DbgIsDebugging env" and "modbasefromaddr env 0 = modbasefromaddr env (- 1)"
  shows "patchdelrange env patches 0 (- 1) True =
           ([], map (\<lambda>i. MemWrite (addr (snd i) + modbasefromaddr env 0) (oldbyte (snd i))) patches)"
  using assms
  by (simp add: patchdelrange_def Let_def prod_eq_iff patchdelrange_loop_kept patchdelrange_loop_writes)

text \<open>
  C4.  \<open>deleteRange(0, maxAddress, true)\<close> is to write each removed record's
  original byte to the record's offset plus the base of its module.  The write goes to
  the offset plus the module base of address \<open>0\<close> instead: for the record of
  \<^verbatim>\<open>lib.dll\<close> patched at \<open>0x10001000\<close>, the byte is written to \<open>0x1000\<close>.
\<close>

theorem patchdelrange_wildcard_restore_address:
  "modbasefromname session ''lib.dll'' = 0x10000000
   \<and> modbasefromaddr session 0x10001000 = 0x10000000
   \<and> patchdelrange session
        [(0xB0001000, \<lparr>mod_name = ''lib.dll'', addr = 0x1000, oldbyte = 0x90, newbyte = 0xCC\<rparr>)]
        0 (- 1) True
     = ([], [MemWrite 0x1000 0x90])"
  by (simp add: session_def in_app_def in_lib_def patchset_def patches_find_def Let_def
        patchdelrange_def tolower_def char_of_def bit_Suc_0_iff)

subsection \<open>Enumerating the ledger\<close>

lemma patchenum_size_query:
  "DbgIsDebugging env \<Longrightarrow>
     patchenum env patches None (Some n) = Inr (True, None, Some (length patches * sizeof_LOOPSINFO env))"
  by (simp add: patchenum_def)

lemma patchenum_fill:
  assumes "DbgIsDebugging env" and "length patches \<le> length buf"
  shows "patchenum env patches (Some buf) cbsize =
           Inr (True,
                Some (map (\<lambda>i. (snd i)\<lparr>addr := addr (snd i) + modbasefromname env (mod_name (snd i))\<rparr>)
                        patches
                      @ drop (length patches) buf),
                cbsize)"
  using assms patchenum_loop_fills [of 0 patches buf env]
  by (simp add: patchenum_def)

text \<open>
  C3.  The size query is to report the number of records times the size of one patch
  record.  It reports the number of records times \<^verbatim>\<open>sizeof(LOOPSINFO)\<close>, the size
  of another structure: 276 bytes for one record where a \<^verbatim>\<open>PATCHINFO\<close> has 264.
\<close>

theorem patchenum_size_uses_LOOPSINFO:
  "patchenum session
     [(0xA0001000, \<lparr>mod_name = ''app.exe'', addr = 0x1000, oldbyte = 0x90, newbyte = 0xCC\<rparr>)]
     None (Some 0)
     = Inr (True, None, Some 276)
   \<and> length [(0xA0001000 :: 32 word,
               \<lparr>mod_name = ''app.exe'', addr = 0x1000 :: 32 word, oldbyte = 0x90, newbyte = 0xCC\<rparr>)]
       * sizeof_PATCHINFO session = 264"
  by (simp add: session_def patchenum_def)

subsection \<open>Patching the file\<close>

text \<open>
  C6.  When two records of the list have module names that differ under
  \<^verbatim>\<open>_stricmp\<close>, \<^verbatim>\<open>patchfile\<close> returns \<open>-1\<close> and has called nothing on the
  outside: no file is copied, loaded or written.
\<close>

theorem patchfile_module_mismatch:
  assumes "p \<in> set patchlist" and "q \<in> set patchlist"
      and "stricmp (mod_name p) (mod_name q) \<noteq> 0"
  shows "patchfile env patchlist szFileName error =
           (Inr (- 1),
            write_error error (''not all patches are in module '' @ mod_name (hd patchlist)), [])"
proof -
  from assms(1) have ne: "patchlist \<noteq> []" by auto
  then have hd_in: "hd patchlist \<in> set patchlist" by simp
  have "stricmp (mod_name p) (mod_name (hd patchlist)) \<noteq> 0
        \<or> stricmp (mod_name q) (mod_name (hd patchlist)) \<noteq> 0"
    using assms(3) by (auto simp: stricmp_zero_iff)
  with assms(1,2) have "patchfile_mismatch (mod_name (hd patchlist)) patchlist"
    unfolding patchfile_mismatch_iff by blast
  with ne show ?thesis by (simp add: patchfile_def Let_def)
qed

text \<open>A patch of \<^verbatim>\<open>app.exe\<close> together with one of \<^verbatim>\<open>lib.dll\<close>.\<close>

theorem patchfile_module_mismatch_witness:
  "stricmp ''app.exe'' ''lib.dll'' \<noteq> 0
   \<and> patchfile session
        [\<lparr>mod_name = ''app.exe'', addr = 0x401000, oldbyte = 0x90, newbyte = 0xCC\<rparr>,
         \<lparr>mod_name = ''lib.dll'', addr = 0x10001000, oldbyte = 0x74, newbyte = 0xEB\<rparr>]
        ''patched.exe'' (Some [])
      = (Inr (- 1), Some ''not all patches are in module app.exe'', [])"
  using patchfile_module_mismatch
    [of "\<lparr>mod_name = ''app.exe'', addr = 0x401000, oldbyte = 0x90, newbyte = 0xCC\<rparr>"
        "[\<lparr>mod_name = ''app.exe'', addr = 0x401000, oldbyte = 0x90, newbyte = 0xCC\<rparr>,
          \<lparr>mod_name = ''lib.dll'', addr = 0x10001000, oldbyte = 0x74, newbyte = 0xEB\<rparr>]"
        "\<lparr>mod_name = ''lib.dll'', addr = 0x10001000, oldbyte = 0x74, newbyte = 0xEB\<rparr>"
        session "''patched.exe''" "Some []"]
  by (simp add: tolower_def char_of_def bit_Suc_0_iff write_error_def)

text \<open>
  C7.  When the list is not empty, all records are in one module, the module is loaded,
  and the file is copied, loaded and unloaded with success, \<^verbatim>\<open>patchfile\<close> returns
  the number of records whose address translates to a raw offset, and the stores into
  the file copy are those records' new bytes, in order: a record with no raw offset is
  skipped and the loop goes on.
\<close>

theorem patchfile_returns_patched_count:
  assumes "patchlist \<noteq> []"
      and "\<not> patchfile_mismatch (mod_name (hd patchlist)) patchlist"
      and "modbasefromname env (mod_name (hd patchlist)) = modbase" and "modbase \<noteq> 0"
      and "GetModuleFileNameExA env modbase = Some szOriginalName"
      and "CopyFileA env szOriginalName szFileName"
      and "StaticFileLoad env szFileName = Some (LoadedSize, FileMapVA)"
      and "StaticFileUnload env szFileName"
  shows "fst (patchfile env patchlist szFileName error) =
           Inr (int (length (filter (has_raw_offset env FileMapVA LoadedSize modbase) patchlist)))
       \<and> filter is_FileWrite (snd (snd (patchfile env patchlist szFileName error))) =
           map (\<lambda>p. FileWrite (ConvertVAtoFileOffsetEx env FileMapVA LoadedSize modbase (addr p))
                      (newbyte p))
             (filter (has_raw_offset env FileMapVA LoadedSize modbase) patchlist)"
proof -
  obtain n evs where loop:
    "patchfile_loop env (mod_name (hd patchlist)) modbase LoadedSize FileMapVA patchlist 0 0 = (n, evs)"
    by (cases "patchfile_loop env (mod_name (hd patchlist)) modbase LoadedSize FileMapVA patchlist 0 0")
  from loop have n: "n = int (length (filter (has_raw_offset env FileMapVA LoadedSize modbase) patchlist))"
    using patchfile_loop_count [of env "mod_name (hd patchlist)" modbase LoadedSize FileMapVA patchlist 0 0]
    by simp
  from loop have evs: "filter is_FileWrite evs =
      map (\<lambda>p. FileWrite (ConvertVAtoFileOffsetEx env FileMapVA LoadedSize modbase (addr p)) (newbyte p))
        (filter (has_raw_offset env FileMapVA LoadedSize modbase) patchlist)"
    using patchfile_loop_writes [of env "mod_name (hd patchlist)" modbase LoadedSize FileMapVA patchlist 0 0]
    by simp
  from assms loop have "patchfile env patchlist szFileName error =
      (Inr n, error, [CopyFile szOriginalName szFileName, FileLoad szFileName] @ evs @ [FileUnload szFileName])"
    by (simp add: patchfile_def Let_def)
  with n evs show ?thesis by simp
qed

text \<open>Three records of \<^verbatim>\<open>app.exe\<close>; the second one has no raw offset.\<close>

theorem patchfile_returns_patched_count_witness:
  "patchfile session
     [\<lparr>mod_name = ''app.exe'', addr = 0x401000, oldbyte = 0x90, newbyte = 0xCC\<rparr>,
      \<lparr>mod_name = ''APP.EXE'', addr = 0x403000, oldbyte = 0x74, newbyte = 0xEB\<rparr>,
      \<lparr>mod_name = ''app.exe'', addr = 0x401002, oldbyte = 0x75, newbyte = 0xEB\<rparr>]
     ''patched.exe'' None
   = (Inr 2, None,
      [CopyFile ''app.exe'' ''patched.exe'', FileLoad ''patched.exe'',
       Dprintf 1 ''app.exe'' 0x400 0x90 0xCC, FileWrite 0x20000400 0xCC,
       Dprintf 3 ''app.exe'' 0x402 0x75 0xEB, FileWrite 0x20000402 0xEB,
       FileUnload ''patched.exe''])"
  using patchfile_returns_patched_count
    [of "[\<lparr>mod_name = ''app.exe'', addr = 0x401000, oldbyte = 0x90, newbyte = 0xCC\<rparr>,
          \<lparr>mod_name = ''APP.EXE'', addr = 0x403000, oldbyte = 0x74, newbyte = 0xEB\<rparr>,
          \<lparr>mod_name = ''app.exe'', addr = 0x401002, oldbyte = 0x75, newbyte = 0xEB\<rparr>]"
        session "0x400000" "''app.exe''" "''patched.exe''" "0x2000" "0x20000000" None]
  by (simp add: session_def tolower_def char_of_def bit_Suc_0_iff patchfile_def has_raw_offset_def Let_def)

text \<open>
  C10.  With a null error buffer no failure path is to write a message.  When
  \<^verbatim>\<open>StaticFileLoad\<close> fails, the message is copied without the test for null that
  every other failure path has: the call writes through the null pointer.
\<close>

theorem patchfile_null_error_on_load_failure:
  "patchfile (session\<lparr>StaticFileLoad := (\<lambda>f. None)\<rparr>)
     [\<lparr>mod_name = ''app.exe'', addr = 0x401000, oldbyte = 0x90, newbyte = 0xCC\<rparr>]
     ''patched.exe'' None
   = (Inl NullPointerWrite, None, [CopyFile ''app.exe'' ''patched.exe'', FileLoad ''patched.exe''])"
  by (simp add: session_def patchfile_def Let_def tolower_def char_of_def bit_Suc_0_iff)

end
